theory Spec2Isabelle
  imports Complex_Main "HOL-Library.Sublist"
begin

section \<open>Python values used by the backend\<close>

text \<open>
  The backend consists of \<^verbatim>\<open>schemas.py\<close> (the request record and its field bounds),
  \<^verbatim>\<open>model_loader.py\<close> (three module-level globals, a loader and three getters) and
  \<^verbatim>\<open>main.py\<close> (the startup hook and the \<^verbatim>\<open>/predict\<close> handler).

  Python floats are modelled as real numbers: the handler only compares them with
  constants, copies them and rounds one of them, so finite floats and reals agree on
  every branch taken. A NumPy array of shape (1, n) is a list holding one row.
\<close>

type_synonym matrix = "real list list"

text \<open>An exception is either FastAPI's \<^verbatim>\<open>HTTPException(status_code, detail)\<close> or any other
  exception, kept as the text \<^verbatim>\<open>str(e)\<close> gives for it.\<close>

datatype exc = HTTPException nat string | PyException string

definition digit_char :: "nat \<Rightarrow> char" where
  "digit_char n = ''0123456789'' ! n"

fun str_nat :: "nat \<Rightarrow> string" where
  "str_nat n = (if n < 10 then [digit_char n] else str_nat (n div 10) @ [digit_char (n mod 10)])"

declare str_nat.simps [simp del]

text \<open>\<^verbatim>\<open>str(i)\<close> and \<^verbatim>\<open>f"{i}"\<close> for a Python int.\<close>

definition py_str_int :: "int \<Rightarrow> string" where
  "py_str_int i = (if i < 0 then ''-'' @ str_nat (nat (- i)) else str_nat (nat i))"

text \<open>\<^verbatim>\<open>str(e)\<close>: Starlette's \<^verbatim>\<open>HTTPException.__str__\<close> prints the status code, a colon and the
  detail; every other exception is kept as its text.\<close>

fun str_exc :: "exc \<Rightarrow> string" where
  "str_exc (HTTPException status_code detail) = str_nat status_code @ '': '' @ detail"
| "str_exc (PyException msg) = msg"

text \<open>\<^verbatim>\<open>sep.join(xs)\<close>.\<close>

fun py_join :: "string \<Rightarrow> string list \<Rightarrow> string" where
  "py_join sep [] = []"
| "py_join sep [x] = x"
| "py_join sep (x # y # ys) = x @ sep @ py_join sep (y # ys)"

text \<open>\<^verbatim>\<open>int(x)\<close> truncates towards zero.\<close>

definition py_int :: "real \<Rightarrow> int" where
  "py_int x = (if 0 \<le> x then \<lfloor>x\<rfloor> else \<lceil>x\<rceil>)"

text \<open>\<^verbatim>\<open>round(x, ndigits)\<close> on a float: the nearest multiple of \<open>10 ^ - ndigits\<close>, a tie going
  to the even one.\<close>

definition round_half_even :: "real \<Rightarrow> int" where
  "round_half_even x =
     (let f = \<lfloor>x\<rfloor>; d = x - of_int f
      in if d < 1 / 2 then f else if 1 / 2 < d then f + 1 else if even f then f else f + 1)"

definition py_round :: "real \<Rightarrow> nat \<Rightarrow> real" where
  "py_round x ndigits = of_int (round_half_even (x * 10 ^ ndigits)) / 10 ^ ndigits"

text \<open>The JSON values a handler returns: a dict literal is an association list in the order
  it is written.\<close>

datatype json = JInt int | JFloat real | JStr string | JObject "(string \<times> json) list"

section \<open>schemas.py: the request record\<close>

record StudentData =
  attendance :: real
  study_hours :: real
  assignments_completed :: int
  quiz_score :: real
  midterm_score :: real
  internet_access :: int
  past_failures :: int

text \<open>\<^verbatim>\<open>Field(..., ge=lo, le=hi)\<close>: each bound is optional, and a field is checked against its
  own bounds only.\<close>

definition field_ok :: "'a::linorder option \<Rightarrow> 'a option \<Rightarrow> 'a \<Rightarrow> bool" where
  "field_ok ge le v =
     ((case ge of None \<Rightarrow> True | Some lo \<Rightarrow> lo \<le> v) \<and> (case le of None \<Rightarrow> True | Some hi \<Rightarrow> v \<le> hi))"

text \<open>Validation of the declared fields, in declaration order; the result lists the fields
  whose bound is violated.\<close>

definition validation_errors :: "StudentData \<Rightarrow> string list" where
  "validation_errors s =
     (if field_ok (Some 0) (Some 100) (attendance s) then [] else [''attendance'']) @
     (if field_ok (Some 0) None (study_hours s) then [] else [''study_hours'']) @
     (if field_ok (Some 0) None (assignments_completed s) then [] else [''assignments_completed'']) @
     (if field_ok (Some 0) (Some 100) (quiz_score s) then [] else [''quiz_score'']) @
     (if field_ok (Some 0) (Some 100) (midterm_score s) then [] else [''midterm_score'']) @
     (if field_ok (Some 0) (Some 1) (internet_access s) then [] else [''internet_access'']) @
     (if field_ok (Some 0) None (past_failures s) then [] else [''past_failures''])"

section \<open>model_loader.py: globals, loader, getters\<close>

text \<open>
  A deserialised artifact is an opaque object. Python looks methods up by name on
  whatever object a global holds, so every artifact carries the three methods the handler
  calls; each may raise.
\<close>

record artifact =
  obj_transform :: "matrix \<Rightarrow> exc + matrix"
  obj_predict :: "matrix \<Rightarrow> exc + real list"
  obj_predict_proba :: "matrix \<Rightarrow> exc + matrix"

text \<open>The calls that leave the repository's own code, in the order they are made.\<close>

datatype call =
    JoblibLoad string
  | Print string
  | ScalerTransform matrix
  | LogisticPredict matrix
  | LogisticPredictProba matrix
  | DecisionTreePredict matrix

text \<open>The process state: the three module-level globals (\<open>None\<close> until loaded) and the log
  of outside calls.\<close>

record world =
  logistic_model :: "artifact option"
  decision_tree_model :: "artifact option"
  scaler :: "artifact option"
  calls :: "call list"

definition initial_world :: world where
  "initial_world = \<lparr>logistic_model = None, decision_tree_model = None, scaler = None, calls = []\<rparr>"

text \<open>A Python computation: it runs in a world and either raises or returns a value.\<close>

type_synonym 'a prog = "world \<Rightarrow> (exc + 'a) \<times> world"

definition prog_return :: "'a \<Rightarrow> 'a prog" where
  "prog_return x w = (Inr x, w)"

definition prog_raise :: "exc \<Rightarrow> 'a prog" where
  "prog_raise e w = (Inl e, w)"

definition prog_bind :: "'a prog \<Rightarrow> ('a \<Rightarrow> 'b prog) \<Rightarrow> 'b prog" where
  "prog_bind m k w = (case m w of (Inl e, w') \<Rightarrow> (Inl e, w') | (Inr x, w') \<Rightarrow> k x w')"

definition log_call :: "call \<Rightarrow> (exc + 'a) \<Rightarrow> 'a prog" where
  "log_call c r w = (r, w\<lparr>calls := calls w @ [c]\<rparr>)"

text \<open>\<^verbatim>\<open>os.path.join(a, b)\<close> on a POSIX system.\<close>

definition path_join :: "string \<Rightarrow> string \<Rightarrow> string" where
  "path_join a b =
     (if b \<noteq> [] \<and> hd b = CHR ''/'' then b
      else if a = [] \<or> last a = CHR ''/'' then a @ b
      else a @ ''/'' @ b)"

text \<open>\<^verbatim>\<open>MODELS_DIR\<close>; the directory of \<^verbatim>\<open>model_loader.py\<close> is a parameter.\<close>

definition MODELS_DIR :: "string \<Rightarrow> string" where
  "MODELS_DIR file_dir = path_join file_dir ''models''"

text \<open>\<^verbatim>\<open>load_models\<close>; \<^verbatim>\<open>joblib.load\<close> (the file system) is a parameter.\<close>

definition load_models :: "(string \<Rightarrow> exc + artifact) \<Rightarrow> string \<Rightarrow> unit prog" where
  "load_models joblib_load file_dir =
     (let logistic_model_path = path_join (MODELS_DIR file_dir) ''logistic_model.joblib'' in
      prog_bind (log_call (JoblibLoad logistic_model_path) (joblib_load logistic_model_path)) (\<lambda>m1.
      prog_bind (\<lambda>w. (Inr (), w\<lparr>logistic_model := Some m1\<rparr>)) (\<lambda>_.
      let decision_tree_model_path = path_join (MODELS_DIR file_dir) ''decision_tree_model.joblib'' in
      prog_bind (log_call (JoblibLoad decision_tree_model_path) (joblib_load decision_tree_model_path)) (\<lambda>m2.
      prog_bind (\<lambda>w. (Inr (), w\<lparr>decision_tree_model := Some m2\<rparr>)) (\<lambda>_.
      let scaler_path = path_join (MODELS_DIR file_dir) ''scaler.joblib'' in
      prog_bind (log_call (JoblibLoad scaler_path) (joblib_load scaler_path)) (\<lambda>m3.
      prog_bind (\<lambda>w. (Inr (), w\<lparr>scaler := Some m3\<rparr>)) (\<lambda>_.
      log_call (Print ''All models loaded successfully!'') (Inr ()))))))))"

definition get_logistic_model :: "artifact option prog" where
  "get_logistic_model w = (Inr (logistic_model w), w)"

definition get_decision_tree_model :: "artifact option prog" where
  "get_decision_tree_model w = (Inr (decision_tree_model w), w)"

definition get_scaler :: "artifact option prog" where
  "get_scaler w = (Inr (scaler w), w)"

section \<open>main.py: startup hook and prediction handler\<close>

definition startup_event :: "(string \<Rightarrow> exc + artifact) \<Rightarrow> string \<Rightarrow> unit prog" where
  "startup_event joblib_load file_dir = load_models joblib_load file_dir"

text \<open>\<^verbatim>\<open>input_data\<close>: the seven fields in the order the source lists them; NumPy converts the
  three ints to floats.\<close>

definition input_data :: "StudentData \<Rightarrow> real list" where
  "input_data student_data =
     [attendance student_data,
      study_hours student_data,
      of_int (assignments_completed student_data),
      quiz_score student_data,
      midterm_score student_data,
      of_int (internet_access student_data),
      of_int (past_failures student_data)]"

text \<open>\<^verbatim>\<open>np.array(xs).reshape(1, -1)\<close>.\<close>

definition reshape_row :: "real list \<Rightarrow> matrix" where
  "reshape_row xs = [xs]"

definition input_array :: "StudentData \<Rightarrow> matrix" where
  "input_array student_data = reshape_row (input_data student_data)"

text \<open>\<^verbatim>\<open>xs[i]\<close> for a literal index \<open>i \<ge> 0\<close>; NumPy raises IndexError out of range.\<close>

definition py_index :: "'a list \<Rightarrow> nat \<Rightarrow> 'a prog" where
  "py_index xs i =
     (if i < length xs then prog_return (xs ! i)
      else prog_raise (PyException (''index '' @ str_nat i @ '' is out of bounds for axis 0 with size ''
                                     @ str_nat (length xs))))"

text \<open>The risk factors of the logistic-regression explanation, appended one test after the
  other.\<close>

definition lr_explanation_parts :: "StudentData \<Rightarrow> string list" where
  "lr_explanation_parts student_data =
     (let parts0 = [];
          parts1 = (if midterm_score student_data < 70 then parts0 @ [''low midterm score''] else parts0);
          parts2 = (if quiz_score student_data < 70 then parts1 @ [''low quiz score''] else parts1);
          parts3 = (if study_hours student_data < 10 then parts2 @ [''low study hours''] else parts2);
          parts4 = (if attendance student_data < 75 then parts3 @ [''low attendance''] else parts3)
      in parts4)"

definition lr_explanation_text :: "real \<Rightarrow> string list \<Rightarrow> string" where
  "lr_explanation_text logistic_prediction explanation_parts =
     (if explanation_parts \<noteq> [] then
        if length explanation_parts = 1 then
          ''The model predicted the student is ''
            @ (if logistic_prediction = 1 then ''at risk'' else ''not at risk'')
            @ '' because of '' @ explanation_parts ! 0 @ ''.''
        else
          ''The model predicted the student is ''
            @ (if logistic_prediction = 1 then ''at risk'' else ''not at risk'')
            @ '' because of '' @ py_join '', '' (butlast explanation_parts)
            @ '', and '' @ last explanation_parts @ ''.''
      else
        ''The model predicted the student is ''
          @ (if logistic_prediction = 1 then ''at risk'' else ''not at risk'')
          @ '' based on overall academic performance indicators.'')"

definition dt_explanation_parts :: "StudentData \<Rightarrow> string list" where
  "dt_explanation_parts student_data =
     (let parts0 = [];
          parts1 = (if past_failures student_data > 0
                    then parts0 @ [py_str_int (past_failures student_data) @ '' past failure(s)'']
                    else parts0 @ [''no past failures'']);
          parts2 = (if internet_access student_data = 1
                    then parts1 @ [''internet access available'']
                    else parts1 @ [''no internet access''])
      in parts2)"

definition dt_explanation_text :: "real \<Rightarrow> string list \<Rightarrow> string" where
  "dt_explanation_text decision_tree_prediction parts =
     ''The model predicted the student is ''
       @ (if decision_tree_prediction = 1 then ''at risk'' else ''not at risk'')
       @ '' because of '' @ py_join '', '' parts @ ''.''"

text \<open>The body of the \<^verbatim>\<open>try\<close> block of \<^verbatim>\<open>predict\<close>.\<close>

definition predict_body :: "StudentData \<Rightarrow> json prog" where
  "predict_body student_data =
     prog_bind get_logistic_model (\<lambda>lm.
     prog_bind get_decision_tree_model (\<lambda>dt.
     prog_bind get_scaler (\<lambda>sc.
     if lm = None \<or> dt = None \<or> sc = None then
       prog_raise (HTTPException 500 ''Models not loaded. Please restart the application.'')
     else
       let arr = input_array student_data in
       prog_bind (log_call (ScalerTransform arr) (obj_transform (the sc) arr)) (\<lambda>scaled_input.
       prog_bind (log_call (LogisticPredict scaled_input) (obj_predict (the lm) scaled_input)) (\<lambda>lr_out.
       prog_bind (py_index lr_out 0) (\<lambda>logistic_prediction.
       prog_bind (log_call (LogisticPredictProba scaled_input) (obj_predict_proba (the lm) scaled_input)) (\<lambda>proba_out.
       prog_bind (py_index proba_out 0) (\<lambda>logistic_proba.
       prog_bind (py_index logistic_proba 1) (\<lambda>p1.
       let risk_probability = py_round p1 2;
           explanation_text = lr_explanation_text logistic_prediction (lr_explanation_parts student_data) in
       prog_bind (log_call (DecisionTreePredict arr) (obj_predict (the dt) arr)) (\<lambda>dt_out.
       prog_bind (py_index dt_out 0) (\<lambda>decision_tree_prediction.
       let dt_explanation = dt_explanation_text decision_tree_prediction (dt_explanation_parts student_data) in
       prog_return (JObject
         [(''logistic_regression'', JObject
            [(''prediction'', JInt (py_int logistic_prediction)),
             (''risk_probability'', JFloat risk_probability),
             (''explanation'', JStr explanation_text)]),
          (''decision_tree'', JObject
            [(''prediction'', JInt (py_int decision_tree_prediction)),
             (''explanation'', JStr dt_explanation)])]))))))))))))"

text \<open>\<^verbatim>\<open>predict\<close>: the \<^verbatim>\<open>try\<close> body under \<^verbatim>\<open>except Exception as e\<close>. HTTPException is an
  Exception, so the handler clause catches the one the body raises as well.\<close>

definition predict :: "StudentData \<Rightarrow> json prog" where
  "predict student_data w =
     (case predict_body student_data w of
        (Inr response, w') \<Rightarrow> (Inr response, w')
      | (Inl e, w') \<Rightarrow> (Inl (HTTPException 500 (''Prediction failed: '' @ str_exc e)), w'))"

text \<open>The route \<^verbatim>\<open>POST /predict\<close>: FastAPI validates the body against \<open>StudentData\<close> and
  answers 422 without calling the handler when a field fails; an HTTPException raised by
  the handler becomes a response with its status code and detail.\<close>

datatype http_response =
    Response200 json
  | Response422 "string list"
  | ResponseError nat string

definition predict_endpoint :: "StudentData \<Rightarrow> world \<Rightarrow> http_response \<times> world" where
  "predict_endpoint student_data w =
     (let errors = validation_errors student_data in
      if errors \<noteq> [] then (Response422 errors, w)
      else case predict student_data w of
             (Inr response, w') \<Rightarrow> (Response200 response, w')
           | (Inl (HTTPException status_code detail), w') \<Rightarrow> (ResponseError status_code detail, w')
           | (Inl (PyException msg), w') \<Rightarrow> (ResponseError 500 ''Internal Server Error'', w'))"

section \<open>Concrete artifacts and requests\<close>

text \<open>
  Stand-ins for the three serialised artifacts, used to run the handler on concrete
  requests: a scaler that centres every feature at 50 and divides by 10, a linear
  classifier that looks at the scaled attendance, and a tree that looks at the raw count
  of past failures. A method an object does not have raises AttributeError.
\<close>

definition ex_scaler :: artifact where
  "ex_scaler =
     \<lparr>obj_transform = (\<lambda>m. Inr (map (map (\<lambda>x. (x - 50) / 10)) m)),
      obj_predict = (\<lambda>m. Inl (PyException ''no attribute predict'')),
      obj_predict_proba = (\<lambda>m. Inl (PyException ''no attribute predict_proba''))\<rparr>"

definition ex_logistic :: artifact where
  "ex_logistic =
     \<lparr>obj_transform = (\<lambda>m. Inl (PyException ''no attribute transform'')),
      obj_predict = (\<lambda>m. Inr (map (\<lambda>row. case row of [] \<Rightarrow> 0 | x # _ \<Rightarrow> if x < 0 then 1 else 0) m)),
      obj_predict_proba = (\<lambda>m. Inr (map (\<lambda>row. case row of [] \<Rightarrow> [1 / 2, 1 / 2]
                                    | x # _ \<Rightarrow> if x < 0 then [1 / 4, 3 / 4] else [7 / 8, 1 / 8]) m))\<rparr>"

definition ex_tree :: artifact where
  "ex_tree =
     \<lparr>obj_transform = (\<lambda>m. Inl (PyException ''no attribute transform'')),
      obj_predict = (\<lambda>m. Inr (map (\<lambda>row. if row \<noteq> [] \<and> 0 < last row then 1 else 0) m)),
      obj_predict_proba = (\<lambda>m. Inl (PyException ''no attribute predict_proba''))\<rparr>"

definition ex_world :: world where
  "ex_world =
     \<lparr>logistic_model = Some ex_logistic, decision_tree_model = Some ex_tree,
      scaler = Some ex_scaler, calls = []\<rparr>"

definition ex_joblib_load :: "string \<Rightarrow> exc + artifact" where
  "ex_joblib_load path =
     (if path = ''/app/backend/models/logistic_model.joblib'' then Inr ex_logistic
      else if path = ''/app/backend/models/decision_tree_model.joblib'' then Inr ex_tree
      else if path = ''/app/backend/models/scaler.joblib'' then Inr ex_scaler
      else Inl (PyException ''No such file or directory''))"

text \<open>The sample request of \<^verbatim>\<open>test_backend.py\<close>, a request on which every threshold fires,
  a request on which only the midterm threshold fires, and a request out of bounds.\<close>

definition ex_student :: StudentData where
  "ex_student =
     \<lparr>attendance = 171 / 2, study_hours = 10, assignments_completed = 8, quiz_score = 75,
      midterm_score = 80, internet_access = 1, past_failures = 0\<rparr>"

definition ex_student_low :: StudentData where
  "ex_student_low =
     \<lparr>attendance = 40, study_hours = 5, assignments_completed = 3, quiz_score = 55,
      midterm_score = 45, internet_access = 0, past_failures = 2\<rparr>"

definition ex_student_mid :: StudentData where
  "ex_student_mid =
     \<lparr>attendance = 90, study_hours = 12, assignments_completed = 9, quiz_score = 80,
      midterm_score = 65, internet_access = 1, past_failures = 0\<rparr>"

definition ex_student_bad :: StudentData where
  "ex_student_bad =
     \<lparr>attendance = 120, study_hours = 10, assignments_completed = 8, quiz_score = 75,
      midterm_score = 80, internet_access = 1, past_failures = 0\<rparr>"

section \<open>Running the model\<close>

text \<open>Unfolding sets: the monad with the getters, and the concrete artifacts with the pure
  helpers of the handler.\<close>

lemmas prog_defs = prog_bind_def prog_return_def prog_raise_def log_call_def
  get_logistic_model_def get_decision_tree_model_def get_scaler_def py_index_def

lemmas example_defs = ex_world_def ex_logistic_def ex_tree_def ex_scaler_def
  input_array_def input_data_def reshape_row_def py_round_def round_half_even_def py_int_def
  lr_explanation_text_def lr_explanation_parts_def dt_explanation_text_def dt_explanation_parts_def
  py_str_int_def digit_char_def



lemma predict_body_not_loaded:
  assumes "logistic_model w = None \<or> decision_tree_model w = None \<or> scaler w = None"
  shows "predict_body s w =
           (Inl (HTTPException 500 ''Models not loaded. Please restart the application.''), w)"
  using assms by (auto simp: predict_body_def prog_defs)

text \<open>The body never assigns a global; it only appends inference calls to the log.\<close>

lemma predict_body_frame:
  "logistic_model (snd (predict_body s w)) = logistic_model w \<and>
   decision_tree_model (snd (predict_body s w)) = decision_tree_model w \<and>
   scaler (snd (predict_body s w)) = scaler w \<and>
   (\<exists>cs. calls (snd (predict_body s w)) = calls w @ cs \<and>
      set cs \<subseteq> range ScalerTransform \<union> range LogisticPredict \<union> range LogisticPredictProba
                 \<union> range DecisionTreePredict)"
  unfolding predict_body_def get_logistic_model_def get_decision_tree_model_def get_scaler_def
    py_index_def Let_def
  by (auto simp: prog_bind_def prog_return_def prog_raise_def log_call_def
      split: if_splits sum.splits prod.splits)

lemma snd_predict: "snd (predict s w) = snd (predict_body s w)"
  by (auto simp: predict_def split: prod.splits sum.splits)

lemma fst_predict: "fst (predict s w) =
   (case fst (predict_body s w) of Inr r \<Rightarrow> Inr r
    | Inl e \<Rightarrow> Inl (HTTPException 500 (''Prediction failed: '' @ str_exc e)))"
  by (auto simp: predict_def split: prod.splits sum.splits)

lemma fst_predict_endpoint:
  "fst (predict_endpoint s w) =
     (if validation_errors s \<noteq> [] then Response422 (validation_errors s)
      else case fst (predict s w) of
             Inr r \<Rightarrow> Response200 r
           | Inl (HTTPException c d) \<Rightarrow> ResponseError c d
           | Inl (PyException m) \<Rightarrow> ResponseError 500 ''Internal Server Error'')"
  by (auto simp: predict_endpoint_def Let_def split: prod.splits sum.splits exc.splits)

lemma predict_error_shape:
  assumes "predict s w = (Inl e, w')"
  shows "\<exists>msg. e = HTTPException 500 (''Prediction failed: '' @ msg)"
  using assms by (auto simp: predict_def split: prod.splits sum.splits)

text \<open>The outcome of the body does not depend on the log, hence only on the three globals
  and the request.\<close>

lemma predict_body_calls_irrelevant:
  "fst (predict_body s (w\<lparr>calls := cs\<rparr>)) = fst (predict_body s w)"
  unfolding predict_body_def get_logistic_model_def get_decision_tree_model_def get_scaler_def
    py_index_def Let_def
  by (auto simp: prog_bind_def prog_return_def prog_raise_def log_call_def
      split: if_splits sum.splits prod.splits)

lemma world_eq_upto_calls:
  fixes w1 w2 :: world
  assumes "logistic_model w1 = logistic_model w2" "decision_tree_model w1 = decision_tree_model w2"
    "scaler w1 = scaler w2"
  shows "w1 = w2\<lparr>calls := calls w1\<rparr>"
  using assms by (cases w1, cases w2) simp

lemma predict_same_globals:
  assumes "logistic_model w1 = logistic_model w2" "decision_tree_model w1 = decision_tree_model w2"
    "scaler w1 = scaler w2"
  shows "fst (predict s w1) = fst (predict s w2)"
proof -
  have "w1 = w2\<lparr>calls := calls w1\<rparr>" using assms by (rule world_eq_upto_calls)
  then have "fst (predict_body s w1) = fst (predict_body s w2)"
    using predict_body_calls_irrelevant [of s "calls w1" w2] by simp
  then show ?thesis by (simp add: fst_predict)
qed



text \<open>The field bounds of \<open>StudentData\<close>, all together and field by field.\<close>

lemma validation_errors_empty_iff:
  "validation_errors s = [] \<longleftrightarrow>
     (0 \<le> attendance s \<and> attendance s \<le> 100 \<and> 0 \<le> study_hours s \<and>
      0 \<le> assignments_completed s \<and> 0 \<le> quiz_score s \<and> quiz_score s \<le> 100 \<and>
      0 \<le> midterm_score s \<and> midterm_score s \<le> 100 \<and>
      (internet_access s = 0 \<or> internet_access s = 1) \<and> 0 \<le> past_failures s)"
  by (auto simp: validation_errors_def field_ok_def)

lemma validation_errors_per_field:
  "(''attendance'' \<in> set (validation_errors s)) = (\<not> (0 \<le> attendance s \<and> attendance s \<le> 100))"
  "(''study_hours'' \<in> set (validation_errors s)) = (\<not> 0 \<le> study_hours s)"
  "(''assignments_completed'' \<in> set (validation_errors s)) = (\<not> 0 \<le> assignments_completed s)"
  "(''quiz_score'' \<in> set (validation_errors s)) = (\<not> (0 \<le> quiz_score s \<and> quiz_score s \<le> 100))"
  "(''midterm_score'' \<in> set (validation_errors s)) = (\<not> (0 \<le> midterm_score s \<and> midterm_score s \<le> 100))"
  "(''internet_access'' \<in> set (validation_errors s)) = (\<not> (internet_access s = 0 \<or> internet_access s = 1))"
  "(''past_failures'' \<in> set (validation_errors s)) = (\<not> 0 \<le> past_failures s)"
  by (auto simp: validation_errors_def field_ok_def)

text \<open>The risk factors as a filter of the four fragments in their fixed order, and the
  occurrence of each fragment in the finished sentence.\<close>

lemma lr_explanation_parts_filter:
  "lr_explanation_parts s =
     map fst (filter snd
       [(''low midterm score'', midterm_score s < 70),
        (''low quiz score'', quiz_score s < 70),
        (''low study hours'', study_hours s < 10),
        (''low attendance'', attendance s < 75)])"
  by (simp add: lr_explanation_parts_def)

lemma sublist_step: "sublist (x # xs) (y # ys) \<longleftrightarrow> (x = y \<and> prefix xs ys) \<or> sublist (x # xs) ys"
  by (simp add: sublist_Cons_right)

lemma mentions_midterm:
  "sublist ''low midterm score'' (lr_explanation_text p (lr_explanation_parts s)) \<longleftrightarrow> midterm_score s < 70"
  by (simp add: lr_explanation_text_def lr_explanation_parts_def sublist_step)

lemma mentions_quiz:
  "sublist ''low quiz score'' (lr_explanation_text p (lr_explanation_parts s)) \<longleftrightarrow> quiz_score s < 70"
  by (simp add: lr_explanation_text_def lr_explanation_parts_def sublist_step)

lemma mentions_study:
  "sublist ''low study hours'' (lr_explanation_text p (lr_explanation_parts s)) \<longleftrightarrow> study_hours s < 10"
  by (simp add: lr_explanation_text_def lr_explanation_parts_def sublist_step)

lemma mentions_attendance:
  "sublist ''low attendance'' (lr_explanation_text p (lr_explanation_parts s)) \<longleftrightarrow> attendance s < 75"
  by (simp add: lr_explanation_text_def lr_explanation_parts_def sublist_step)


lemma ex_student_mid_run:
  "fst (predict ex_student_mid ex_world) =
     Inr (JObject
        [(''logistic_regression'', JObject
           [(''prediction'', JInt 0),
            (''risk_probability'', JFloat (3 / 25)),
            (''explanation'', JStr ''The model predicted the student is not at risk because of low midterm score.'')]),
         (''decision_tree'', JObject
           [(''prediction'', JInt 0),
            (''explanation'', JStr ''The model predicted the student is not at risk because of no past failures, internet access available.'')])])"
  by (simp add: predict_def predict_body_def prog_defs example_defs ex_student_mid_def Let_def)

lemma ex_student_low_parts:
  "lr_explanation_parts ex_student_low =
     [''low midterm score'', ''low quiz score'', ''low study hours'', ''low attendance'']"
  by (simp add: lr_explanation_parts_def ex_student_low_def)

lemma ex_student_mid_parts: "lr_explanation_parts ex_student_mid = [''low midterm score'']"
  by (simp add: lr_explanation_parts_def ex_student_mid_def)

lemma ex_startup_run:
  "startup_event ex_joblib_load ''/app/backend'' initial_world =
     (Inr (), \<lparr>logistic_model = Some ex_logistic, decision_tree_model = Some ex_tree,
               scaler = Some ex_scaler,
               calls = [JoblibLoad ''/app/backend/models/logistic_model.joblib'',
                        JoblibLoad ''/app/backend/models/decision_tree_model.joblib'',
                        JoblibLoad ''/app/backend/models/scaler.joblib'',
                        Print ''All models loaded successfully!'']\<rparr>)"
  by (simp add: startup_event_def load_models_def Let_def prog_bind_def log_call_def
      MODELS_DIR_def path_join_def ex_joblib_load_def initial_world_def)

section \<open>Properties of the backend\<close>

subsection \<open>Scaling and the two classifiers\<close>




subsection \<open>Validation\<close>

text \<open>
  C2. A request passes validation exactly when each of the seven fields is within its own
  static bound; the error for a field depends on that field alone. A request that fails
  is answered 422 with the world unchanged, so neither the scaler nor a model is called;
  a request that passes is handed to the handler.
\<close>

theorem request_accepted_iff_bounds:
  "(validation_errors s = [] \<longleftrightarrow>
     (0 \<le> attendance s \<and> attendance s \<le> 100 \<and> 0 \<le> study_hours s \<and>
      0 \<le> assignments_completed s \<and> 0 \<le> quiz_score s \<and> quiz_score s \<le> 100 \<and>
      0 \<le> midterm_score s \<and> midterm_score s \<le> 100 \<and>
      (internet_access s = 0 \<or> internet_access s = 1) \<and> 0 \<le> past_failures s)) \<and>
   ((\<exists>errors. fst (predict_endpoint s w) = Response422 errors) \<longleftrightarrow> validation_errors s \<noteq> []) \<and>
   (validation_errors s \<noteq> [] \<longrightarrow> predict_endpoint s w = (Response422 (validation_errors s), w)) \<and>
   (validation_errors s = [] \<longrightarrow> snd (predict_endpoint s w) = snd (predict s w)) \<and>
   ((''attendance'' \<in> set (validation_errors s)) = (\<not> (0 \<le> attendance s \<and> attendance s \<le> 100))) \<and>
   ((''study_hours'' \<in> set (validation_errors s)) = (\<not> 0 \<le> study_hours s)) \<and>
   ((''assignments_completed'' \<in> set (validation_errors s)) = (\<not> 0 \<le> assignments_completed s)) \<and>
   ((''quiz_score'' \<in> set (validation_errors s)) = (\<not> (0 \<le> quiz_score s \<and> quiz_score s \<le> 100))) \<and>
   ((''midterm_score'' \<in> set (validation_errors s)) = (\<not> (0 \<le> midterm_score s \<and> midterm_score s \<le> 100))) \<and>
   ((''internet_access'' \<in> set (validation_errors s)) = (\<not> (internet_access s = 0 \<or> internet_access s = 1))) \<and>
   ((''past_failures'' \<in> set (validation_errors s)) = (\<not> 0 \<le> past_failures s))"
proof -
  have a: "(\<exists>errors. fst (predict_endpoint s w) = Response422 errors) \<longleftrightarrow> validation_errors s \<noteq> []"
    by (auto simp: fst_predict_endpoint split: sum.splits exc.splits)
  have b: "validation_errors s \<noteq> [] \<longrightarrow> predict_endpoint s w = (Response422 (validation_errors s), w)"
    by (simp add: predict_endpoint_def)
  have c: "validation_errors s = [] \<longrightarrow> snd (predict_endpoint s w) = snd (predict s w)"
    by (auto simp: predict_endpoint_def split: prod.splits sum.splits exc.splits)
  show ?thesis
    using a b c validation_errors_empty_iff [of s] validation_errors_per_field [of s]
    by blast
qed

theorem request_accepted_iff_bounds_witness:
  "validation_errors ex_student_bad = [''attendance''] \<and>
   predict_endpoint ex_student_bad ex_world = (Response422 [''attendance''], ex_world) \<and>
   validation_errors ex_student = [] \<and>
   snd (predict_endpoint ex_student ex_world) = snd (predict ex_student ex_world)"
proof -
  have bad: "validation_errors ex_student_bad = [''attendance'']"
    by (simp add: validation_errors_def field_ok_def ex_student_bad_def)
  have good: "validation_errors ex_student = []"
    by (simp add: validation_errors_def field_ok_def ex_student_def)
  show ?thesis
    using request_accepted_iff_bounds [of ex_student_bad ex_world]
      request_accepted_iff_bounds [of ex_student ex_world] bad good
    by simp
qed

subsection \<open>Feature order\<close>



subsection \<open>Explanations\<close>

text \<open>
  C4. The logistic-regression explanation is built from thresholds on the raw fields: the
  fragments are those of the four whose test holds (midterm below 70, quiz below 70,
  study hours below 10, attendance below 75), in that order, and each fragment occurs in
  the sentence exactly when its test holds. With no fragment the sentence ends in the
  fixed fallback; with one it names that fragment; with two or more the fragments are
  joined by commas with \<open>, and\<close> before the last. The decision-tree explanation has
  exactly two fragments: the count of past failures when positive, else
  \<open>no past failures\<close>, and the internet-access fragment chosen by
  \<open>internet_access = 1\<close>.
\<close>

theorem explanation_threshold_rules:
  "lr_explanation_parts s =
     map fst (filter snd
       [(''low midterm score'', midterm_score s < 70),
        (''low quiz score'', quiz_score s < 70),
        (''low study hours'', study_hours s < 10),
        (''low attendance'', attendance s < 75)]) \<and>
   (sublist ''low midterm score'' (lr_explanation_text p (lr_explanation_parts s)) \<longleftrightarrow> midterm_score s < 70) \<and>
   (sublist ''low quiz score'' (lr_explanation_text p (lr_explanation_parts s)) \<longleftrightarrow> quiz_score s < 70) \<and>
   (sublist ''low study hours'' (lr_explanation_text p (lr_explanation_parts s)) \<longleftrightarrow> study_hours s < 10) \<and>
   (sublist ''low attendance'' (lr_explanation_text p (lr_explanation_parts s)) \<longleftrightarrow> attendance s < 75) \<and>
   (lr_explanation_parts s = [] \<longrightarrow>
      lr_explanation_text p (lr_explanation_parts s) =
        ''The model predicted the student is '' @ (if p = 1 then ''at risk'' else ''not at risk'')
          @ '' based on overall academic performance indicators.'') \<and>
   (\<forall>a. lr_explanation_parts s = [a] \<longrightarrow>
      lr_explanation_text p (lr_explanation_parts s) =
        ''The model predicted the student is '' @ (if p = 1 then ''at risk'' else ''not at risk'')
          @ '' because of '' @ a @ ''.'') \<and>
   (2 \<le> length (lr_explanation_parts s) \<longrightarrow>
      lr_explanation_text p (lr_explanation_parts s) =
        ''The model predicted the student is '' @ (if p = 1 then ''at risk'' else ''not at risk'')
          @ '' because of '' @ py_join '', '' (butlast (lr_explanation_parts s))
          @ '', and '' @ last (lr_explanation_parts s) @ ''.'') \<and>
   dt_explanation_parts s =
     [if 0 < past_failures s then py_str_int (past_failures s) @ '' past failure(s)''
      else ''no past failures'',
      if internet_access s = 1 then ''internet access available'' else ''no internet access''] \<and>
   dt_explanation_text q (dt_explanation_parts s) =
     ''The model predicted the student is '' @ (if q = 1 then ''at risk'' else ''not at risk'')
       @ '' because of ''
       @ (if 0 < past_failures s then py_str_int (past_failures s) @ '' past failure(s)''
          else ''no past failures'')
       @ '', ''
       @ (if internet_access s = 1 then ''internet access available'' else ''no internet access'')
       @ ''.''"
proof -
  have t0: "lr_explanation_parts s = [] \<longrightarrow>
      lr_explanation_text p (lr_explanation_parts s) =
        ''The model predicted the student is '' @ (if p = 1 then ''at risk'' else ''not at risk'')
          @ '' based on overall academic performance indicators.''"
    by (simp add: lr_explanation_text_def)
  have t1: "\<forall>a. lr_explanation_parts s = [a] \<longrightarrow>
      lr_explanation_text p (lr_explanation_parts s) =
        ''The model predicted the student is '' @ (if p = 1 then ''at risk'' else ''not at risk'')
          @ '' because of '' @ a @ ''.''"
    by (simp add: lr_explanation_text_def)
  have t2: "2 \<le> length (lr_explanation_parts s) \<longrightarrow>
      lr_explanation_text p (lr_explanation_parts s) =
        ''The model predicted the student is '' @ (if p = 1 then ''at risk'' else ''not at risk'')
          @ '' because of '' @ py_join '', '' (butlast (lr_explanation_parts s))
          @ '', and '' @ last (lr_explanation_parts s) @ ''.''"
    unfolding lr_explanation_text_def by (cases "lr_explanation_parts s") auto
  have d1: "dt_explanation_parts s =
     [if 0 < past_failures s then py_str_int (past_failures s) @ '' past failure(s)''
      else ''no past failures'',
      if internet_access s = 1 then ''internet access available'' else ''no internet access'']"
    by (simp add: dt_explanation_parts_def)
  have d2: "dt_explanation_text q (dt_explanation_parts s) =
     ''The model predicted the student is '' @ (if q = 1 then ''at risk'' else ''not at risk'')
       @ '' because of ''
       @ (if 0 < past_failures s then py_str_int (past_failures s) @ '' past failure(s)''
          else ''no past failures'')
       @ '', ''
       @ (if internet_access s = 1 then ''internet access available'' else ''no internet access'')
       @ ''.''"
    unfolding d1 by (simp add: dt_explanation_text_def)
  show ?thesis
    by (intro conjI)
      (rule lr_explanation_parts_filter mentions_midterm mentions_quiz mentions_study
        mentions_attendance t0 t1 t2 d1 d2)+
qed

theorem explanation_threshold_rules_witness:
  "2 \<le> length (lr_explanation_parts ex_student_low) \<and>
   lr_explanation_text 1 (lr_explanation_parts ex_student_low) =
     ''The model predicted the student is at risk because of low midterm score, low quiz score, low study hours, and low attendance.'' \<and>
   dt_explanation_text 1 (dt_explanation_parts ex_student_low) =
     ''The model predicted the student is at risk because of 2 past failure(s), no internet access.''"
proof -
  note rules = explanation_threshold_rules [of ex_student_low 1 1]
  have len: "2 \<le> length (lr_explanation_parts ex_student_low)"
    by (simp add: ex_student_low_parts)
  from rules have "2 \<le> length (lr_explanation_parts ex_student_low) \<longrightarrow>
      lr_explanation_text 1 (lr_explanation_parts ex_student_low) =
        ''The model predicted the student is '' @ (if (1::real) = 1 then ''at risk'' else ''not at risk'')
          @ '' because of '' @ py_join '', '' (butlast (lr_explanation_parts ex_student_low))
          @ '', and '' @ last (lr_explanation_parts ex_student_low) @ ''.''"
    by (elim conjE)
  with len have lr: "lr_explanation_text 1 (lr_explanation_parts ex_student_low) =
     ''The model predicted the student is at risk because of low midterm score, low quiz score, low study hours, and low attendance.''"
    by (simp add: ex_student_low_parts)
  have two: "str_nat 2 = ''2''" by (simp add: str_nat.simps digit_char_def)
  from rules have "dt_explanation_text 1 (dt_explanation_parts ex_student_low) =
     ''The model predicted the student is '' @ (if (1::real) = 1 then ''at risk'' else ''not at risk'')
       @ '' because of ''
       @ (if 0 < past_failures ex_student_low then py_str_int (past_failures ex_student_low) @ '' past failure(s)''
          else ''no past failures'')
       @ '', ''
       @ (if internet_access ex_student_low = 1 then ''internet access available'' else ''no internet access'')
       @ ''.''"
    by (elim conjE)
  then have dt: "dt_explanation_text 1 (dt_explanation_parts ex_student_low) =
     ''The model predicted the student is at risk because of 2 past failure(s), no internet access.''"
    by (simp add: ex_student_low_def py_str_int_def two)
  from len lr dt show ?thesis by (intro conjI)
qed

subsection \<open>Response shape\<close>



subsection \<open>Determinism\<close>

text \<open>
  C6. For fixed loaded artifacts the response is a function of the request alone: two
  worlds holding the same three globals answer a request identically, and a request is
  answered the same after any earlier request as before it.
\<close>

theorem predict_deterministic:
  "(logistic_model w1 = logistic_model w2 \<and> decision_tree_model w1 = decision_tree_model w2 \<and>
    scaler w1 = scaler w2 \<longrightarrow>
      fst (predict s w1) = fst (predict s w2) \<and>
      fst (predict_endpoint s w1) = fst (predict_endpoint s w2)) \<and>
   fst (predict s (snd (predict s' w))) = fst (predict s w) \<and>
   fst (predict_endpoint s (snd (predict_endpoint s' w))) = fst (predict_endpoint s w)"
proof (intro conjI impI)
  assume g: "logistic_model w1 = logistic_model w2 \<and> decision_tree_model w1 = decision_tree_model w2 \<and>
    scaler w1 = scaler w2"
  then show p: "fst (predict s w1) = fst (predict s w2)"
    by (intro predict_same_globals) simp_all
  then show "fst (predict_endpoint s w1) = fst (predict_endpoint s w2)"
    by (simp add: fst_predict_endpoint)
next
  show "fst (predict s (snd (predict s' w))) = fst (predict s w)"
    using predict_body_frame [of s' w] by (intro predict_same_globals) (simp_all add: snd_predict)
next
  have e: "snd (predict_endpoint s' w) = (if validation_errors s' \<noteq> [] then w else snd (predict s' w))"
    by (auto simp: predict_endpoint_def Let_def split: prod.splits sum.splits exc.splits)
  have "fst (predict s (snd (predict_endpoint s' w))) = fst (predict s w)"
    using predict_body_frame [of s' w] by (intro predict_same_globals) (simp_all add: e snd_predict)
  then show "fst (predict_endpoint s (snd (predict_endpoint s' w))) = fst (predict_endpoint s w)"
    by (simp add: fst_predict_endpoint)
qed

theorem predict_deterministic_witness:
  "logistic_model ex_world = logistic_model (ex_world\<lparr>calls := [Print ''earlier request'']\<rparr>) \<and>
   decision_tree_model ex_world = decision_tree_model (ex_world\<lparr>calls := [Print ''earlier request'']\<rparr>) \<and>
   scaler ex_world = scaler (ex_world\<lparr>calls := [Print ''earlier request'']\<rparr>) \<and>
   fst (predict ex_student ex_world) =
     fst (predict ex_student (ex_world\<lparr>calls := [Print ''earlier request'']\<rparr>)) \<and>
   fst (predict_endpoint ex_student ex_world) =
     fst (predict_endpoint ex_student (ex_world\<lparr>calls := [Print ''earlier request'']\<rparr>)) \<and>
   fst (predict ex_student (snd (predict ex_student_low ex_world))) = fst (predict ex_student ex_world)"
  using predict_deterministic
    [of ex_world "ex_world\<lparr>calls := [Print ''earlier request'']\<rparr>" ex_student ex_student_low ex_world]
  by simp

subsection \<open>Frame\<close>



subsection \<open>Startup\<close>

text \<open>
  C8. The startup hook runs the loader once; a load that succeeds has deserialised exactly
  three files (logistic model, decision tree, scaler, in that order), and afterwards each
  getter returns the object loaded from its file, never \<open>None\<close>.
\<close>

theorem startup_loads_three_artifacts:
  assumes "startup_event joblib_load file_dir w = (Inr u, w')"
  shows "\<exists>m1 m2 m3.
           joblib_load (path_join (MODELS_DIR file_dir) ''logistic_model.joblib'') = Inr m1 \<and>
           joblib_load (path_join (MODELS_DIR file_dir) ''decision_tree_model.joblib'') = Inr m2 \<and>
           joblib_load (path_join (MODELS_DIR file_dir) ''scaler.joblib'') = Inr m3 \<and>
           get_logistic_model w' = (Inr (Some m1), w') \<and>
           get_decision_tree_model w' = (Inr (Some m2), w') \<and>
           get_scaler w' = (Inr (Some m3), w') \<and>
           calls w' = calls w @
             [JoblibLoad (path_join (MODELS_DIR file_dir) ''logistic_model.joblib''),
              JoblibLoad (path_join (MODELS_DIR file_dir) ''decision_tree_model.joblib''),
              JoblibLoad (path_join (MODELS_DIR file_dir) ''scaler.joblib''),
              Print ''All models loaded successfully!'']"
  using assms
  unfolding startup_event_def load_models_def Let_def
    get_logistic_model_def get_decision_tree_model_def get_scaler_def
  by (auto simp: prog_bind_def log_call_def split: sum.splits prod.splits)

theorem startup_loads_three_artifacts_witness:
  "get_logistic_model
     (ex_world\<lparr>calls := [JoblibLoad ''/app/backend/models/logistic_model.joblib'',
                        JoblibLoad ''/app/backend/models/decision_tree_model.joblib'',
                        JoblibLoad ''/app/backend/models/scaler.joblib'',
                        Print ''All models loaded successfully!'']\<rparr>) =
     (Inr (Some ex_logistic),
      ex_world\<lparr>calls := [JoblibLoad ''/app/backend/models/logistic_model.joblib'',
                        JoblibLoad ''/app/backend/models/decision_tree_model.joblib'',
                        JoblibLoad ''/app/backend/models/scaler.joblib'',
                        Print ''All models loaded successfully!'']\<rparr>) \<and>
   startup_event ex_joblib_load ''/app/backend'' initial_world =
     (Inr (),
      ex_world\<lparr>calls := [JoblibLoad ''/app/backend/models/logistic_model.joblib'',
                        JoblibLoad ''/app/backend/models/decision_tree_model.joblib'',
                        JoblibLoad ''/app/backend/models/scaler.joblib'',
                        Print ''All models loaded successfully!'']\<rparr>)"
proof -
  have r: "startup_event ex_joblib_load ''/app/backend'' initial_world =
     (Inr (),
      ex_world\<lparr>calls := [JoblibLoad ''/app/backend/models/logistic_model.joblib'',
                        JoblibLoad ''/app/backend/models/decision_tree_model.joblib'',
                        JoblibLoad ''/app/backend/models/scaler.joblib'',
                        Print ''All models loaded successfully!'']\<rparr>)"
    by (simp add: ex_startup_run ex_world_def)
  have p: "ex_joblib_load (path_join (MODELS_DIR ''/app/backend'') ''logistic_model.joblib'') = Inr ex_logistic"
    by (simp add: MODELS_DIR_def path_join_def ex_joblib_load_def)
  from startup_loads_three_artifacts [OF r] p r show ?thesis by auto
qed

subsection \<open>Failures\<close>

text \<open>
  C9. Every failure of the handler is an HTTPException with status 500 whose detail starts
  with \<open>Prediction failed: \<close>. When a global is \<open>None\<close> the handler raises before any
  outside call, and the \<open>Models not loaded\<close> exception is caught by the handler's own
  \<^verbatim>\<open>except\<close> clause and wrapped again: the client never sees the original detail.
\<close>

theorem predict_failure_is_rewrapped:
  "(\<forall>e w'. predict s w = (Inl e, w') \<longrightarrow>
      (\<exists>detail. e = HTTPException 500 detail \<and> prefix ''Prediction failed: '' detail)) \<and>
   (\<forall>code detail w'. predict_endpoint s w = (ResponseError code detail, w') \<longrightarrow>
      code = 500 \<and> prefix ''Prediction failed: '' detail \<and>
      detail \<noteq> ''Models not loaded. Please restart the application.'') \<and>
   (logistic_model w = None \<or> decision_tree_model w = None \<or> scaler w = None \<longrightarrow>
      predict s w =
        (Inl (HTTPException 500 (''Prediction failed: '' @
           str_exc (HTTPException 500 ''Models not loaded. Please restart the application.''))), w))"
proof (intro conjI allI impI)
  fix e w' assume "predict s w = (Inl e, w')"
  from predict_error_shape [OF this]
  show "\<exists>detail. e = HTTPException 500 detail \<and> prefix ''Prediction failed: '' detail"
    by auto
next
  fix code detail w' assume a: "predict_endpoint s w = (ResponseError code detail, w')"
  then obtain e where "predict s w = (Inl e, w')" and
    e: "e = HTTPException code detail \<or> (\<exists>m. e = PyException m)"
    by (auto simp: predict_endpoint_def Let_def split: if_splits prod.splits sum.splits exc.splits)
  from predict_error_shape [OF this(1)] e
  have "code = 500 \<and> prefix ''Prediction failed: '' detail" by auto
  then show "code = 500" "prefix ''Prediction failed: '' detail"
    "detail \<noteq> ''Models not loaded. Please restart the application.''"
    by auto
next
  assume "logistic_model w = None \<or> decision_tree_model w = None \<or> scaler w = None"
  from predict_body_not_loaded [OF this, of s]
  show "predict s w =
        (Inl (HTTPException 500 (''Prediction failed: '' @
           str_exc (HTTPException 500 ''Models not loaded. Please restart the application.''))), w)"
    by (simp add: predict_def)
qed

theorem predict_failure_is_rewrapped_witness:
  "logistic_model initial_world = None \<and>
   predict ex_student initial_world =
     (Inl (HTTPException 500
        ''Prediction failed: 500: Models not loaded. Please restart the application.''),
      initial_world) \<and>
   predict_endpoint ex_student initial_world =
     (ResponseError 500 ''Prediction failed: 500: Models not loaded. Please restart the application.'',
      initial_world)"
proof -
  have n: "logistic_model initial_world = None" by (simp add: initial_world_def)
  have s: "str_nat 500 = ''500''" by (simp add: str_nat.simps digit_char_def)
  have v: "validation_errors ex_student = []"
    by (simp add: validation_errors_def field_ok_def ex_student_def)
  from predict_failure_is_rewrapped [of ex_student initial_world] n
  have p: "predict ex_student initial_world =
     (Inl (HTTPException 500
        ''Prediction failed: 500: Models not loaded. Please restart the application.''),
      initial_world)"
    by (simp add: s)
  then show ?thesis using n v by (simp add: predict_endpoint_def)
qed

subsection \<open>Fragments and the prediction\<close>

text \<open>
  C10. The part of the logistic-regression explanation after the risk phrase does not
  depend on the prediction: only \<open>at risk\<close> / \<open>not at risk\<close> changes. So when a threshold
  fires and the model does not predict 1, the sentence reads \<open>not at risk because of\<close>
  followed by the fragments.
\<close>

theorem lr_fragments_independent_of_prediction:
  "(\<exists>reason. \<forall>p. lr_explanation_text p (lr_explanation_parts s) =
       ''The model predicted the student is '' @ (if p = 1 then ''at risk'' else ''not at risk'') @ reason) \<and>
   (lr_explanation_parts s \<noteq> [] \<and> p \<noteq> 1 \<longrightarrow>
      prefix ''The model predicted the student is not at risk because of ''
        (lr_explanation_text p (lr_explanation_parts s))) \<and>
   (midterm_score s < 70 \<and> \<not> quiz_score s < 70 \<and> \<not> study_hours s < 10 \<and> \<not> attendance s < 75 \<and> p \<noteq> 1 \<longrightarrow>
      lr_explanation_text p (lr_explanation_parts s) =
        ''The model predicted the student is not at risk because of low midterm score.'')"
proof (intro conjI impI)
  let ?reason = "if lr_explanation_parts s \<noteq> [] then
        if length (lr_explanation_parts s) = 1 then '' because of '' @ lr_explanation_parts s ! 0 @ ''.''
        else '' because of '' @ py_join '', '' (butlast (lr_explanation_parts s))
            @ '', and '' @ last (lr_explanation_parts s) @ ''.''
      else '' based on overall academic performance indicators.''"
  have "\<forall>p. lr_explanation_text p (lr_explanation_parts s) =
       ''The model predicted the student is '' @ (if p = 1 then ''at risk'' else ''not at risk'') @ ?reason"
    by (simp add: lr_explanation_text_def)
  then show "\<exists>reason. \<forall>p. lr_explanation_text p (lr_explanation_parts s) =
       ''The model predicted the student is '' @ (if p = 1 then ''at risk'' else ''not at risk'') @ reason"
    by (rule exI)
next
  assume "lr_explanation_parts s \<noteq> [] \<and> p \<noteq> 1"
  then show "prefix ''The model predicted the student is not at risk because of ''
        (lr_explanation_text p (lr_explanation_parts s))"
    by (simp add: lr_explanation_text_def)
next
  assume "midterm_score s < 70 \<and> \<not> quiz_score s < 70 \<and> \<not> study_hours s < 10 \<and> \<not> attendance s < 75 \<and> p \<noteq> 1"
  then show "lr_explanation_text p (lr_explanation_parts s) =
        ''The model predicted the student is not at risk because of low midterm score.''"
    by (simp add: lr_explanation_text_def lr_explanation_parts_def)
qed

theorem lr_fragments_independent_of_prediction_witness:
  "midterm_score ex_student_mid < 70 \<and> (0::real) \<noteq> 1 \<and>
   lr_explanation_text 0 (lr_explanation_parts ex_student_mid) =
     ''The model predicted the student is not at risk because of low midterm score.'' \<and>
   prefix ''The model predicted the student is not at risk because of ''
     (lr_explanation_text 0 (lr_explanation_parts ex_student_mid)) \<and>
   fst (predict ex_student_mid ex_world) =
     Inr (JObject
        [(''logistic_regression'', JObject
           [(''prediction'', JInt 0),
            (''risk_probability'', JFloat (3 / 25)),
            (''explanation'', JStr (lr_explanation_text 0 (lr_explanation_parts ex_student_mid)))]),
         (''decision_tree'', JObject
           [(''prediction'', JInt 0),
            (''explanation'', JStr ''The model predicted the student is not at risk because of no past failures, internet access available.'')])])"
proof -
  have f: "midterm_score ex_student_mid < 70" "\<not> quiz_score ex_student_mid < 70"
    "\<not> study_hours ex_student_mid < 10" "\<not> attendance ex_student_mid < 75"
    by (simp_all add: ex_student_mid_def)
  have n: "lr_explanation_parts ex_student_mid \<noteq> []" by (simp add: ex_student_mid_parts)
  have z: "(0::real) \<noteq> 1" by simp
  from lr_fragments_independent_of_prediction [of ex_student_mid 0] f n z
  have "lr_explanation_text 0 (lr_explanation_parts ex_student_mid) =
     ''The model predicted the student is not at risk because of low midterm score.''"
    and "prefix ''The model predicted the student is not at risk because of ''
     (lr_explanation_text 0 (lr_explanation_parts ex_student_mid))"
    by blast+
  then show ?thesis using f(1) z ex_student_mid_run by simp
qed

end
